theory Spec2Isabelle
  imports Main "HOL-Library.Word" "HOL-Library.Sublist"
begin

section \<open>Errors\<close>

text \<open>
  The package-level error values of \<^verbatim>\<open>postgrest.go\<close> are constructors of their own.
  \<open>Errorf\<close> is an error built at run time by \<^verbatim>\<open>fmt.Errorf\<close> or \<^verbatim>\<open>errors.New\<close>
  inside the package; \<open>External\<close> is an error value handed back by a library call or by
  an injected capability (URL parser, JSON codec, signer, transport), carried along with its
  message.
\<close>

datatype error =
    errMissingConfigParams
  | errMissingHTTPClient
  | errMissingJWTGenerator
  | errMissingRequestMethod
  | errMissingRequestURL
  | errMissingURLPath
  | errMissingRoleClaim
  | errInvalidExpiryClaim
  | Errorf string
  | External string

fun Error :: "error \<Rightarrow> string" where
  "Error errMissingConfigParams = ''postgrest error: missing config parameter''"
| "Error errMissingHTTPClient = ''postgrest error: missing httpClient parameter''"
| "Error errMissingJWTGenerator = ''postgrest error: missing jwtGenerator parameter''"
| "Error errMissingRequestMethod = ''postgrest error: missing request method''"
| "Error errMissingRequestURL = ''postgrest error: missing request url''"
| "Error errMissingURLPath = ''postgrest error: table name not specified in request''"
| "Error errMissingRoleClaim = ''postgrest error: missing 'role' in postgrest claims''"
| "Error errInvalidExpiryClaim = ''postgrest error: invalid 'exp' in postgrest claims''"
| "Error (Errorf msg) = msg"
| "Error (External msg) = msg"

section \<open>Data model\<close>

text \<open>\<^verbatim>\<open>time.Duration\<close> is an \<^verbatim>\<open>int64\<close> count of nanoseconds.\<close>

type_synonym Duration = "64 word"

record Config =
  Issuer :: string
  MasterBaseURL :: string
  MasterRole :: string
  MasterSecret :: string
  SlaveBaseURL :: string
  SlaveRole :: string
  SlaveSecret :: string
  Timeout :: Duration

text \<open>The \<^verbatim>\<open>Issuer\<close> field of \<^verbatim>\<open>Claims\<close> is named \<open>ClaimsIssuer\<close> here; \<^verbatim>\<open>ExpiresAt\<close>
  holds the value of \<^verbatim>\<open>Time.Unix()\<close>, seconds since the epoch.\<close>

record Claims =
  Role :: string
  ClaimsIssuer :: string
  ExpiresAt :: int

text \<open>\<^verbatim>\<open>url.URL\<close> and \<^verbatim>\<open>url.Values\<close> of the standard library.\<close>

record url_URL =
  Scheme :: string
  Opaque :: string
  User :: "string option"
  Host :: string
  Path :: string
  RawPath :: string
  ForceQuery :: bool
  RawQuery :: string
  Fragment :: string

type_synonym url_Values = "(string \<times> string list) list"

text \<open>
  An \<^verbatim>\<open>http.Request\<close> as this package builds it: the method and URL string given to
  \<^verbatim>\<open>http.NewRequest\<close>, the headers added, and the body reader (\<open>None\<close> is the nil
  \<^verbatim>\<open>io.Reader\<close>, \<open>Some bs\<close> a reader over the bytes \<open>bs\<close>).
\<close>

record http_Request =
  Method :: string
  URL :: string
  Header :: "(string \<times> string) list"
  Body :: "string option"

text \<open>
  The body of a response is a stream: the bytes not read so far and the number of times
  \<^verbatim>\<open>Close\<close> has been called on it.
\<close>

record ReadCloser =
  unread :: string
  closes :: nat

text \<open>
  An \<^verbatim>\<open>http.Response\<close>. \<open>RequestMethod\<close> and \<open>RequestURL\<close> stand for
  \<^verbatim>\<open>response.Request.Method\<close> and \<^verbatim>\<open>response.Request.URL.String()\<close>.
\<close>

record http_Response =
  Status :: string
  StatusCode :: int
  RequestMethod :: string
  RequestURL :: string
  RespBody :: ReadCloser

text \<open>
  The agent with its two injected capabilities: \<open>httpClient\<close> is \<^verbatim>\<open>HTTPClientAdapter.Do\<close>,
  \<open>generateJWT\<close> is the \<^verbatim>\<open>JWTGenerator\<close>, which returns a token string and an error
  (\<open>None\<close> is nil).
\<close>

record Agent =
  config :: Config
  httpClient :: "http_Request \<Rightarrow> error + http_Response"
  generateJWT :: "Claims \<Rightarrow> string \<Rightarrow> string \<times> error option"

text \<open>
  What an operation does to the outside world is recorded: every call of the signing
  capability (with the claims and the secret it was given) and every request handed to the
  transport, in order. \<open>clockReads\<close> counts the calls of \<^verbatim>\<open>time.Now\<close>.
\<close>

datatype event = Signed Claims string | Sent http_Request

record world =
  clockReads :: nat
  trace :: "event list"

text \<open>
  The standard-library functions the package calls, taken as parameters:
  \<open>timeNow n\<close> is the result of the \<open>n\<close>-th call of \<^verbatim>\<open>time.Now\<close> in nanoseconds since
  the epoch, \<open>urlParse\<close> is \<^verbatim>\<open>url.Parse\<close>, \<open>urlString\<close> is \<^verbatim>\<open>(*URL).String\<close>,
  \<open>valuesEncode\<close> is \<^verbatim>\<open>Values.Encode\<close>, \<open>httpNewRequestError\<close> is the check made by
  \<^verbatim>\<open>http.NewRequest\<close> on method and URL, \<open>jsonEncoderEncode\<close> is
  \<^verbatim>\<open>json.Encoder.Encode\<close> (the bytes written and the error), \<open>jsonDecoderDecode\<close> is
  \<^verbatim>\<open>json.Decoder.Decode\<close> on the unread
  bytes of a stream and the current content of the target (the number of bytes it read, the
  new content of the target and the error).
\<close>

record ('p, 'v) lib =
  timeNow :: "nat \<Rightarrow> int"
  urlParse :: "string \<Rightarrow> error + url_URL"
  urlString :: "url_URL \<Rightarrow> string"
  valuesEncode :: "url_Values \<Rightarrow> string"
  httpNewRequestError :: "string \<Rightarrow> string \<Rightarrow> error option"
  jsonEncoderEncode :: "'p \<Rightarrow> string \<times> error option"
  jsonDecoderDecode :: "string \<Rightarrow> 'v \<Rightarrow> nat \<times> 'v \<times> error option"

section \<open>Configuration validation\<close>

text \<open>
  \<^verbatim>\<open>validateConfig\<close> walks the fields of the struct by reflection. A reflected field is its
  name, the result of \<^verbatim>\<open>Tag.Lookup("required")\<close> and its value with its type.
\<close>

datatype reflect_Value = StringValue string | DurationValue Duration

record StructField =
  Name :: string
  TagRequired :: "string option"
  FieldValue :: reflect_Value

definition configFields :: "Config \<Rightarrow> StructField list" where
  "configFields c =
    [\<lparr>Name = ''Issuer'', TagRequired = None, FieldValue = StringValue (Issuer c)\<rparr>,
     \<lparr>Name = ''MasterBaseURL'', TagRequired = Some ''true'', FieldValue = StringValue (MasterBaseURL c)\<rparr>,
     \<lparr>Name = ''MasterRole'', TagRequired = Some ''true'', FieldValue = StringValue (MasterRole c)\<rparr>,
     \<lparr>Name = ''MasterSecret'', TagRequired = Some ''true'', FieldValue = StringValue (MasterSecret c)\<rparr>,
     \<lparr>Name = ''SlaveBaseURL'', TagRequired = Some ''true'', FieldValue = StringValue (SlaveBaseURL c)\<rparr>,
     \<lparr>Name = ''SlaveRole'', TagRequired = Some ''true'', FieldValue = StringValue (SlaveRole c)\<rparr>,
     \<lparr>Name = ''SlaveSecret'', TagRequired = Some ''true'', FieldValue = StringValue (SlaveSecret c)\<rparr>,
     \<lparr>Name = ''Timeout'', TagRequired = Some ''true'', FieldValue = DurationValue (Timeout c)\<rparr>]"

fun isEmptyString :: "reflect_Value \<Rightarrow> bool" where
  "isEmptyString (StringValue s) = (s = [])"
| "isEmptyString (DurationValue d) = False"

fun isNonPositiveDuration :: "reflect_Value \<Rightarrow> bool" where
  "isNonPositiveDuration (StringValue s) = False"
| "isNonPositiveDuration (DurationValue d) = (sint d \<le> 0)"

text \<open>The loop of \<^verbatim>\<open>validateConfig\<close>, with \<open>invalidFields\<close> as its accumulator.\<close>

fun validateFields :: "StructField list \<Rightarrow> string list \<Rightarrow> string list" where
  "validateFields [] invalidFields = invalidFields"
| "validateFields (f # fs) invalidFields =
    (if TagRequired f \<noteq> Some ''true'' then validateFields fs invalidFields
     else
       let invalidFields1 =
             (if isEmptyString (FieldValue f) then invalidFields @ [Name f] else invalidFields);
           invalidFields2 =
             (if isNonPositiveDuration (FieldValue f) then invalidFields1 @ [Name f]
              else invalidFields1)
       in validateFields fs invalidFields2)"

text \<open>\<^verbatim>\<open>strings.Join\<close>.\<close>

fun Join :: "string list \<Rightarrow> string \<Rightarrow> string" where
  "Join [] sep = []"
| "Join [x] sep = x"
| "Join (x # y # ys) sep = x @ sep @ Join (y # ys) sep"

definition validateConfig :: "Config \<Rightarrow> error option" where
  "validateConfig c =
    (let invalidFields = validateFields (configFields c) []
     in if invalidFields \<noteq> []
        then Some (Errorf (''postgrest error: invalid config parameters: \<newline>- ''
                            @ Join invalidFields ''\<newline>- ''))
        else None)"

definition NewAgent ::
  "Config option \<Rightarrow> (http_Request \<Rightarrow> error + http_Response) option
    \<Rightarrow> (Claims \<Rightarrow> string \<Rightarrow> string \<times> error option) option \<Rightarrow> error + Agent" where
  "NewAgent cfg client jwtGenerator =
    (case cfg of None \<Rightarrow> Inl errMissingConfigParams
     | Some c \<Rightarrow>
    (case client of None \<Rightarrow> Inl errMissingHTTPClient
     | Some h \<Rightarrow>
    (case jwtGenerator of None \<Rightarrow> Inl errMissingJWTGenerator
     | Some g \<Rightarrow>
    (case validateConfig c of Some err \<Rightarrow> Inl err
     | None \<Rightarrow> Inr \<lparr>config = c, httpClient = h, generateJWT = g\<rparr>))))"

text \<open>
  The specification's reading of the required fields: the names, in declaration order, of
  the required string fields that are empty and of the lifetime when it is not positive.
\<close>

definition missingFields :: "Config \<Rightarrow> string list" where
  "missingFields c =
    (if MasterBaseURL c = [] then [''MasterBaseURL''] else []) @
    (if MasterRole c = [] then [''MasterRole''] else []) @
    (if MasterSecret c = [] then [''MasterSecret''] else []) @
    (if SlaveBaseURL c = [] then [''SlaveBaseURL''] else []) @
    (if SlaveRole c = [] then [''SlaveRole''] else []) @
    (if SlaveSecret c = [] then [''SlaveSecret''] else []) @
    (if sint (Timeout c) \<le> 0 then [''Timeout''] else [])"

definition invalidConfigMessage :: "string list \<Rightarrow> string" where
  "invalidConfigMessage names =
    ''postgrest error: invalid config parameters: \<newline>- '' @ Join names ''\<newline>- ''"

section \<open>Response normalisation\<close>

definition isSuccess :: "int \<Rightarrow> bool" where
  "isSuccess httpStatusCode \<longleftrightarrow> httpStatusCode \<ge> 200 \<and> httpStatusCode < 300"

text \<open>\<^verbatim>\<open>jsonEncode\<close>: the buffer it returns is never nil.\<close>

definition jsonEncode :: "('p, 'v) lib \<Rightarrow> 'p \<Rightarrow> string option \<times> error option" where
  "jsonEncode l payload = (case jsonEncoderEncode l payload of (b, err) \<Rightarrow> (Some b, err))"

text \<open>The deferred \<^verbatim>\<open>response.Body.Close()\<close>.\<close>

definition Close :: "ReadCloser \<Rightarrow> ReadCloser" where
  "Close b = b\<lparr>closes := Suc (closes b)\<rparr>"

text \<open>
  \<^verbatim>\<open>unmarshalResponse\<close>. The target is \<open>None\<close> for a nil interface and \<open>Some t\<close> for a
  pointer to the content \<open>t\<close>. The result is the returned pair of status and error, the
  content of the target afterwards, and the body stream afterwards.
\<close>

definition unmarshalResponse ::
  "('p, 'v) lib \<Rightarrow> http_Response \<Rightarrow> 'v option
    \<Rightarrow> (int \<times> error option) \<times> 'v option \<times> ReadCloser" where
  "unmarshalResponse l response target =
    (if \<not> isSuccess (StatusCode response)
     then ((StatusCode response,
            Some (Errorf (''postgrest error ('' @ RequestMethod response @ '' ''
                            @ RequestURL response @ ''): '' @ Status response))),
           target, Close (RespBody response))
     else (case target of
         None \<Rightarrow> ((StatusCode response, None), None, Close (RespBody response))
       | Some t \<Rightarrow>
          (case jsonDecoderDecode l (unread (RespBody response)) t of
             (n, t', Some err) \<Rightarrow>
               ((500, Some err), Some t',
                Close ((RespBody response)\<lparr>unread := drop n (unread (RespBody response))\<rparr>))
           | (n, t', None) \<Rightarrow>
               ((StatusCode response, None), Some t',
                Close ((RespBody response)\<lparr>unread := drop n (unread (RespBody response))\<rparr>)))))"

section \<open>Token issuer\<close>

text \<open>
  A \<^verbatim>\<open>time.Time\<close> is its number of nanoseconds since the epoch. \<^verbatim>\<open>time.Second\<close> is
  the duration of \<open>10\<^sup>9\<close> nanoseconds; the product of two durations is an \<^verbatim>\<open>int64\<close>
  product and wraps around.
\<close>

definition Second :: Duration where
  "Second = 1000000000"

definition Time_Add :: "int \<Rightarrow> Duration \<Rightarrow> int" where
  "Time_Add t d = t + sint d"

definition Time_Unix :: "int \<Rightarrow> int" where
  "Time_Unix t = t div 1000000000"

definition generateClaims :: "('p, 'v) lib \<Rightarrow> string \<Rightarrow> Config \<Rightarrow> world \<Rightarrow> Claims \<times> world" where
  "generateClaims l role cfg w =
    (\<lparr>Role = role, ClaimsIssuer = Issuer cfg,
      ExpiresAt = Time_Unix (Time_Add (timeNow l (clockReads w)) (Timeout cfg * Second))\<rparr>,
     w\<lparr>clockReads := Suc (clockReads w)\<rparr>)"

definition generateReadTokenStr ::
  "('p, 'v) lib \<Rightarrow> Agent \<Rightarrow> world \<Rightarrow> (string \<times> error option) \<times> world" where
  "generateReadTokenStr l agent w =
    (case generateClaims l (SlaveRole (config agent)) (config agent) w of
       (claims, w1) \<Rightarrow>
         (case generateJWT agent claims (SlaveSecret (config agent)) of
            (tokenStr, err) \<Rightarrow>
              ((''Bearer '' @ tokenStr, err),
               w1\<lparr>trace := trace w1 @ [Signed claims (SlaveSecret (config agent))]\<rparr>)))"

definition generateWriteTokenStr ::
  "('p, 'v) lib \<Rightarrow> Agent \<Rightarrow> world \<Rightarrow> (string \<times> error option) \<times> world" where
  "generateWriteTokenStr l agent w =
    (case generateClaims l (MasterRole (config agent)) (config agent) w of
       (claims, w1) \<Rightarrow>
         (case generateJWT agent claims (MasterSecret (config agent)) of
            (tokenStr, err) \<Rightarrow>
              ((''Bearer '' @ tokenStr, err),
               w1\<lparr>trace := trace w1 @ [Signed claims (MasterSecret (config agent))]\<rparr>)))"

section \<open>URL builder\<close>

definition buildURLStr ::
  "('p, 'v) lib \<Rightarrow> string \<Rightarrow> string \<Rightarrow> url_Values option \<Rightarrow> error + string" where
  "buildURLStr l baseURL path queryParams =
    (if path = [] then Inl errMissingURLPath
     else (case urlParse l baseURL of
         Inl err \<Rightarrow> Inl err
       | Inr url \<Rightarrow>
           let encodedQuery = (case queryParams of None \<Rightarrow> [] | Some q \<Rightarrow> valuesEncode l q)
           in Inr (urlString l (url\<lparr>Path := path, RawQuery := encodedQuery\<rparr>))))"

section \<open>Request dispatcher\<close>

text \<open>\<^verbatim>\<open>http.NewRequest\<close>: the library's check, then a request with no header yet.\<close>

definition http_NewRequest ::
  "('p, 'v) lib \<Rightarrow> string \<Rightarrow> string \<Rightarrow> string option \<Rightarrow> error + http_Request" where
  "http_NewRequest l method urlStr body =
    (case httpNewRequestError l method urlStr of
       Some err \<Rightarrow> Inl err
     | None \<Rightarrow> Inr \<lparr>Method = method, URL = urlStr, Header = [], Body = body\<rparr>)"

definition newRequest ::
  "('p, 'v) lib \<Rightarrow> string \<Rightarrow> string \<Rightarrow> string \<Rightarrow> string option \<Rightarrow> error + http_Request" where
  "newRequest l method urlStr tokenStr body =
    (case http_NewRequest l method urlStr body of
       Inl err \<Rightarrow> Inl err
     | Inr request \<Rightarrow> Inr (request\<lparr>Header := Header request @ [(''Authorization'', tokenStr)]\<rparr>))"

definition newReadRequest ::
  "('p, 'v) lib \<Rightarrow> Agent \<Rightarrow> string \<Rightarrow> string \<Rightarrow> world \<Rightarrow> (error + http_Request) \<times> world" where
  "newReadRequest l agent method urlStr w =
    (case generateReadTokenStr l agent w of
       ((tokenStr, Some err), w1) \<Rightarrow> (Inl err, w1)
     | ((tokenStr, None), w1) \<Rightarrow> (newRequest l method urlStr tokenStr None, w1))"

definition newWriteRequest ::
  "('p, 'v) lib \<Rightarrow> Agent \<Rightarrow> string \<Rightarrow> string \<Rightarrow> string option \<Rightarrow> world
    \<Rightarrow> (error + http_Request) \<times> world" where
  "newWriteRequest l agent method urlStr body w =
    (case generateWriteTokenStr l agent w of
       ((tokenStr, Some err), w1) \<Rightarrow> (Inl err, w1)
     | ((tokenStr, None), w1) \<Rightarrow> (newRequest l method urlStr tokenStr body, w1))"

definition NewRequest ::
  "('p, 'v) lib \<Rightarrow> Agent \<Rightarrow> string \<Rightarrow> string \<Rightarrow> string option \<Rightarrow> world
    \<Rightarrow> (error + http_Request) \<times> world" where
  "NewRequest l agent method urlStr body w =
    (if urlStr = [] then (Inl errMissingRequestURL, w)
     else if method = [] then (Inl errMissingRequestMethod, w)
     else if method = ''GET'' then newReadRequest l agent method urlStr w
     else newWriteRequest l agent method urlStr body w)"

text \<open>\<^verbatim>\<open>agent.httpClient.Do(request)\<close>: the request goes to the transport.\<close>

definition Do :: "Agent \<Rightarrow> http_Request \<Rightarrow> world \<Rightarrow> (error + http_Response) \<times> world" where
  "Do agent request w = (httpClient agent request, w\<lparr>trace := trace w @ [Sent request]\<rparr>)"

definition sendRequest ::
  "('p, 'v) lib \<Rightarrow> Agent \<Rightarrow> string \<Rightarrow> string \<Rightarrow> string option \<Rightarrow> world
    \<Rightarrow> (error + http_Response) \<times> world" where
  "sendRequest l agent method urlStr body w =
    (case NewRequest l agent method urlStr body w of
       (Inl err, w1) \<Rightarrow> (Inl err, w1)
     | (Inr request, w1) \<Rightarrow> Do agent request w1)"

text \<open>The loop of \<^verbatim>\<open>Ping\<close> over the named addresses.\<close>

fun pingURLs ::
  "('p, 'v) lib \<Rightarrow> Agent \<Rightarrow> (string \<times> string) list \<Rightarrow> world \<Rightarrow> error option \<times> world" where
  "pingURLs l agent [] w = (None, w)"
| "pingURLs l agent ((name, url) # urls) w =
    (case sendRequest l agent ''GET'' url None w of
       (Inl err, w1) \<Rightarrow> (Some (Errorf (name @ '' service error: '' @ Error err)), w1)
     | (Inr response, w1) \<Rightarrow>
         if \<not> isSuccess (StatusCode response)
         then (Some (Errorf (name @ '' service error: '' @ Error (Errorf (Status response)))), w1)
         else pingURLs l agent urls w1)"

definition Ping :: "('p, 'v) lib \<Rightarrow> Agent \<Rightarrow> world \<Rightarrow> error option \<times> world" where
  "Ping l agent w =
    pingURLs l agent
      [(''master'', MasterBaseURL (config agent)), (''slave'', SlaveBaseURL (config agent))] w"

definition Get ::
  "('p, 'v) lib \<Rightarrow> Agent \<Rightarrow> string \<Rightarrow> url_Values option \<Rightarrow> world
    \<Rightarrow> (error + http_Response) \<times> world" where
  "Get l agent table query w =
    (case buildURLStr l (SlaveBaseURL (config agent)) table query of
       Inl err \<Rightarrow> (Inl err, w)
     | Inr urlStr \<Rightarrow> sendRequest l agent ''GET'' urlStr None w)"

text \<open>
  The \<^verbatim>\<open>JSON\<close> variants return the status and the error; the content of the target
  afterwards comes with them.
\<close>

definition GetJSON ::
  "('p, 'v) lib \<Rightarrow> Agent \<Rightarrow> string \<Rightarrow> url_Values option \<Rightarrow> 'v option \<Rightarrow> world
    \<Rightarrow> ((int \<times> error option) \<times> 'v option) \<times> world" where
  "GetJSON l agent table query target w =
    (case Get l agent table query w of
       (Inl err, w1) \<Rightarrow> (((0, Some err), target), w1)
     | (Inr response, w1) \<Rightarrow>
         (case unmarshalResponse l response target of
            (result, target', body') \<Rightarrow> ((result, target'), w1)))"

definition Post ::
  "('p, 'v) lib \<Rightarrow> Agent \<Rightarrow> string \<Rightarrow> string option \<Rightarrow> world
    \<Rightarrow> (error + http_Response) \<times> world" where
  "Post l agent table body w =
    (case buildURLStr l (MasterBaseURL (config agent)) table None of
       Inl err \<Rightarrow> (Inl err, w)
     | Inr urlStr \<Rightarrow> sendRequest l agent ''POST'' urlStr body w)"

definition PostAndReturn ::
  "('p, 'v) lib \<Rightarrow> Agent \<Rightarrow> string \<Rightarrow> string option \<Rightarrow> world
    \<Rightarrow> (error + http_Response) \<times> world" where
  "PostAndReturn l agent table body w =
    (case buildURLStr l (MasterBaseURL (config agent)) table None of
       Inl err \<Rightarrow> (Inl err, w)
     | Inr urlStr \<Rightarrow>
         (case NewRequest l agent ''POST'' urlStr body w of
            (Inl err, w1) \<Rightarrow> (Inl err, w1)
          | (Inr request, w1) \<Rightarrow>
              Do agent (request\<lparr>Header := Header request @ [(''Prefer'', ''return=representation'')]\<rparr>)
                w1))"

definition PostJSON ::
  "('p, 'v) lib \<Rightarrow> Agent \<Rightarrow> string \<Rightarrow> 'p \<Rightarrow> 'v option \<Rightarrow> world
    \<Rightarrow> ((int \<times> error option) \<times> 'v option) \<times> world" where
  "PostJSON l agent table payload target w =
    (case jsonEncode l payload of
       (body, Some err) \<Rightarrow> (((0, Some err), target), w)
     | (body, None) \<Rightarrow>
         if target = None
         then (case Post l agent table body w of
              (Inl err, w1) \<Rightarrow> (((0, Some err), target), w1)
            | (Inr response, w1) \<Rightarrow>
                (case unmarshalResponse l response None of
                   (result, target', body') \<Rightarrow> ((result, target'), w1)))
         else (case PostAndReturn l agent table body w of
              (Inl err, w1) \<Rightarrow> (((0, Some err), target), w1)
            | (Inr response, w1) \<Rightarrow>
                (case unmarshalResponse l response target of
                   (result, target', body') \<Rightarrow> ((result, target'), w1))))"

definition Patch ::
  "('p, 'v) lib \<Rightarrow> Agent \<Rightarrow> string \<Rightarrow> url_Values option \<Rightarrow> string option \<Rightarrow> world
    \<Rightarrow> (error + http_Response) \<times> world" where
  "Patch l agent table query body w =
    (case buildURLStr l (MasterBaseURL (config agent)) table query of
       Inl err \<Rightarrow> (Inl err, w)
     | Inr urlStr \<Rightarrow> sendRequest l agent ''PATCH'' urlStr body w)"

definition PatchJSON ::
  "('p, 'v) lib \<Rightarrow> Agent \<Rightarrow> string \<Rightarrow> url_Values option \<Rightarrow> 'p \<Rightarrow> world
    \<Rightarrow> (int \<times> error option) \<times> world" where
  "PatchJSON l agent table query payload w =
    (case jsonEncode l payload of
       (body, Some err) \<Rightarrow> ((0, Some err), w)
     | (body, None) \<Rightarrow>
         (case Patch l agent table query body w of
            (Inl err, w1) \<Rightarrow> ((0, Some err), w1)
          | (Inr response, w1) \<Rightarrow> (fst (unmarshalResponse l response None), w1)))"

definition Delete ::
  "('p, 'v) lib \<Rightarrow> Agent \<Rightarrow> string \<Rightarrow> url_Values option \<Rightarrow> world
    \<Rightarrow> (error + http_Response) \<times> world" where
  "Delete l agent table query w =
    (case buildURLStr l (MasterBaseURL (config agent)) table query of
       Inl err \<Rightarrow> (Inl err, w)
     | Inr urlStr \<Rightarrow> sendRequest l agent ''DELETE'' urlStr None w)"

definition DeleteJSON ::
  "('p, 'v) lib \<Rightarrow> Agent \<Rightarrow> string \<Rightarrow> url_Values option \<Rightarrow> world
    \<Rightarrow> (int \<times> error option) \<times> world" where
  "DeleteJSON l agent table query w =
    (case Delete l agent table query w of
       (Inl err, w1) \<Rightarrow> ((0, Some err), w1)
     | (Inr response, w1) \<Rightarrow> (fst (unmarshalResponse l response None), w1))"

section \<open>Observing a run\<close>

text \<open>
  The specification's reading of the token issuer: a duration counted in seconds fits when
  its number of nanoseconds is an \<^verbatim>\<open>int64\<close>, and the claims for a role carry the
  configured issuer and expire that many seconds after the clock's reading.
\<close>

definition fitsInt64 :: "int \<Rightarrow> bool" where
  "fitsInt64 k \<longleftrightarrow> - (2 ^ 63) \<le> k \<and> k < 2 ^ 63"

definition claimsFor :: "('p, 'v) lib \<Rightarrow> Config \<Rightarrow> string \<Rightarrow> world \<Rightarrow> Claims" where
  "claimsFor l cfg role w =
    \<lparr>Role = role, ClaimsIssuer = Issuer cfg,
     ExpiresAt = Time_Unix (timeNow l (clockReads w)) + sint (Timeout cfg)\<rparr>"

text \<open>
  Reading a trace: the identity (role and secret) of every signing call, and the requests
  handed to the transport; \<open>newEvents w w'\<close> is what was recorded between two worlds.
\<close>

fun identities :: "event list \<Rightarrow> (string \<times> string) list" where
  "identities [] = []"
| "identities (Signed claims secret # es) = (Role claims, secret) # identities es"
| "identities (Sent request # es) = identities es"

fun sentRequests :: "event list \<Rightarrow> http_Request list" where
  "sentRequests [] = []"
| "sentRequests (Signed claims secret # es) = sentRequests es"
| "sentRequests (Sent request # es) = request # sentRequests es"

definition newEvents :: "world \<Rightarrow> world \<Rightarrow> event list" where
  "newEvents w w' = drop (length (trace w)) (trace w')"

text \<open>The routing rule of the specification: the identity that belongs to a method.\<close>

definition identityFor :: "Config \<Rightarrow> string \<Rightarrow> string \<times> string" where
  "identityFor cfg method =
    (if method = ''GET'' then (SlaveRole cfg, SlaveSecret cfg)
     else (MasterRole cfg, MasterSecret cfg))"

text \<open>The signing call that \<^verbatim>\<open>NewRequest\<close> records for a request with the given method.\<close>

definition signedEvent :: "('p, 'v) lib \<Rightarrow> Agent \<Rightarrow> string \<Rightarrow> world \<Rightarrow> event" where
  "signedEvent l agent method w =
    Signed (fst (generateClaims l (fst (identityFor (config agent) method)) (config agent) w))
      (snd (identityFor (config agent) method))"

text \<open>
  What an operation put on the wire: \<open>sentAs\<close> says that every request sent has the given
  method, URL and body, that every signing call used the given identity, and that at most
  one request was sent; \<open>routedTo\<close> says that every request sent has the given method and
  the URL built from the given base address, and that every signing call used the given
  identity.
\<close>

definition sentAs ::
  "string \<Rightarrow> string \<Rightarrow> string option \<Rightarrow> string \<times> string \<Rightarrow> event list \<Rightarrow> bool" where
  "sentAs method urlStr body ident evs \<longleftrightarrow>
     (\<forall>request \<in> set (sentRequests evs).
        Method request = method \<and> URL request = urlStr \<and> Body request = body)
     \<and> (\<forall>i \<in> set (identities evs). i = ident)
     \<and> length (sentRequests evs) \<le> 1"


text \<open>
  The two probes of \<^verbatim>\<open>Ping\<close>, and what counts as a failed probe: the call returned an
  error, or a response whose status is no success. \<open>probeMessage\<close> is the text \<^verbatim>\<open>%v\<close>
  prints for the error reported.
\<close>

definition probeMaster :: "('p, 'v) lib \<Rightarrow> Agent \<Rightarrow> world \<Rightarrow> (error + http_Response) \<times> world" where
  "probeMaster l agent w = sendRequest l agent ''GET'' (MasterBaseURL (config agent)) None w"

definition probeSlave :: "('p, 'v) lib \<Rightarrow> Agent \<Rightarrow> world \<Rightarrow> (error + http_Response) \<times> world" where
  "probeSlave l agent w = sendRequest l agent ''GET'' (SlaveBaseURL (config agent)) None w"

fun probeFailed :: "error + http_Response \<Rightarrow> bool" where
  "probeFailed (Inl err) = True"
| "probeFailed (Inr response) = (\<not> isSuccess (StatusCode response))"

fun probeMessage :: "error + http_Response \<Rightarrow> string" where
  "probeMessage (Inl err) = Error err"
| "probeMessage (Inr response) = Status response"

text \<open>No request reached the transport between two worlds.\<close>

definition nothingSent :: "world \<Rightarrow> world \<Rightarrow> bool" where
  "nothingSent w w' \<longleftrightarrow> sentRequests (newEvents w w') = []"

text \<open>
  The run in which nothing stands in the way of a request: \<open>signerResult\<close> is the signer's
  answer to the claims made for the method, \<open>accepted\<close> says that URL and method are not
  empty, that the signer returns no error and that \<^verbatim>\<open>http.NewRequest\<close> accepts method and
  URL, and \<open>requestFor\<close> is the request \<^verbatim>\<open>NewRequest\<close> then builds. \<open>issued\<close> says that
  exactly one signing call was made, with the given identity, and exactly one request was
  sent, with the given method, URL and body.
\<close>

definition signerResult :: "('p, 'v) lib \<Rightarrow> Agent \<Rightarrow> string \<Rightarrow> world \<Rightarrow> string \<times> error option" where
  "signerResult l agent method w =
    generateJWT agent
      (fst (generateClaims l (fst (identityFor (config agent) method)) (config agent) w))
      (snd (identityFor (config agent) method))"

definition accepted :: "('p, 'v) lib \<Rightarrow> Agent \<Rightarrow> string \<Rightarrow> string \<Rightarrow> world \<Rightarrow> bool" where
  "accepted l agent method urlStr w \<longleftrightarrow>
     urlStr \<noteq> [] \<and> method \<noteq> [] \<and> snd (signerResult l agent method w) = None
     \<and> httpNewRequestError l method urlStr = None"

definition requestFor ::
  "('p, 'v) lib \<Rightarrow> Agent \<Rightarrow> string \<Rightarrow> string \<Rightarrow> string option \<Rightarrow> world \<Rightarrow> http_Request" where
  "requestFor l agent method urlStr body w =
    \<lparr>Method = method, URL = urlStr,
     Header = [(''Authorization'', ''Bearer '' @ fst (signerResult l agent method w))],
     Body = (if method = ''GET'' then None else body)\<rparr>"


section \<open>Example inputs\<close>

text \<open>The zero value \<^verbatim>\<open>Config{}\<close>, and the signer and a transport of the package's tests.\<close>

definition emptyConfig :: Config where
  "emptyConfig = \<lparr>Issuer = [], MasterBaseURL = [], MasterRole = [], MasterSecret = [],
     SlaveBaseURL = [], SlaveRole = [], SlaveSecret = [], Timeout = 0\<rparr>"

definition testSigner :: "Claims \<Rightarrow> string \<Rightarrow> string \<times> error option" where
  "testSigner claims secret = (''secret'', None)"

definition okResponse :: "http_Request \<Rightarrow> http_Response" where
  "okResponse request =
    \<lparr>Status = ''200 OK'', StatusCode = 200, RequestMethod = Method request,
     RequestURL = URL request, RespBody = \<lparr>unread = ''true'', closes = 0\<rparr>\<rparr>"

definition testClient :: "http_Request \<Rightarrow> error + http_Response" where
  "testClient request = Inr (okResponse request)"

text \<open>
  A small stand-in for the library functions, enough to run the examples: an
  \<^verbatim>\<open>http://\<close> address is split into host, path and query, anything else is rejected
  the way \<^verbatim>\<open>url.Parse\<close> rejects \<^verbatim>\<open>://xy/\<close> in the package's tests.
\<close>

definition testParse :: "string \<Rightarrow> error + url_URL" where
  "testParse s =
    (if take 7 s = ''http://''
     then let rest = drop 7 s;
              host = takeWhile (\<lambda>c. c \<noteq> CHR ''/'' \<and> c \<noteq> CHR ''?'') rest;
              rest1 = dropWhile (\<lambda>c. c \<noteq> CHR ''/'' \<and> c \<noteq> CHR ''?'') rest
          in Inr \<lparr>Scheme = ''http'', Opaque = [], User = None, Host = host,
                  Path = takeWhile (\<lambda>c. c \<noteq> CHR ''?'') rest1, RawPath = [],
                  ForceQuery = False,
                  RawQuery = drop 1 (dropWhile (\<lambda>c. c \<noteq> CHR ''?'') rest1), Fragment = []\<rparr>
     else Inl (External (''parse '' @ s @ '': missing protocol scheme'')))"

definition testString :: "url_URL \<Rightarrow> string" where
  "testString u =
    Scheme u @ ''://'' @ Host u
    @ (if Path u \<noteq> [] \<and> take 1 (Path u) \<noteq> ''/'' then ''/'' else []) @ Path u
    @ (if ForceQuery u \<or> RawQuery u \<noteq> [] then ''?'' @ RawQuery u else [])"

definition testEncode :: "url_Values \<Rightarrow> string" where
  "testEncode vs = Join (concat (map (\<lambda>(k, xs). map (\<lambda>x. k @ ''='' @ x) xs) vs)) ''&''"

definition testLib :: "(string, string) lib" where
  "testLib =
    \<lparr>timeNow = (\<lambda>n. 1700000000123456789 + int n),
     urlParse = testParse,
     urlString = testString,
     valuesEncode = testEncode,
     httpNewRequestError = (\<lambda>method urlStr. case testParse urlStr of Inl err \<Rightarrow> Some err | Inr u \<Rightarrow> None),
     jsonEncoderEncode = (\<lambda>payload. (payload, None)),
     jsonDecoderDecode = (\<lambda>bs t. if bs = ''true'' then (4, bs, None)
                                  else (1, t, Some (External ''invalid character'')))\<rparr>"

text \<open>Two responses: a remote failure, and a success whose body is not JSON.\<close>

definition notFoundResponse :: http_Response where
  "notFoundResponse =
    \<lparr>Status = ''404 Not Found'', StatusCode = 404, RequestMethod = ''GET'',
     RequestURL = ''http://slave/tableNoExist'',
     RespBody = \<lparr>unread = ''Not Found'', closes = 0\<rparr>\<rparr>"

definition badJSONResponse :: http_Response where
  "badJSONResponse =
    \<lparr>Status = ''200 OK'', StatusCode = 200, RequestMethod = ''GET'',
     RequestURL = ''http://slave/test_table'',
     RespBody = \<lparr>unread = ''test'', closes = 0\<rparr>\<rparr>"

text \<open>The configuration and the agent of the package's tests, and a fresh world.\<close>

definition testConfig :: Config where
  "testConfig = \<lparr>Issuer = ''test'', MasterBaseURL = ''http://master'',
     MasterRole = ''masterRole'', MasterSecret = ''masterSecret'',
     SlaveBaseURL = ''http://slave'', SlaveRole = ''slaveRole'',
     SlaveSecret = ''slaveSecret'', Timeout = 5\<rparr>"

definition testAgent :: Agent where
  "testAgent = \<lparr>config = testConfig, httpClient = testClient, generateJWT = testSigner\<rparr>"

definition world0 :: world where
  "world0 = \<lparr>clockReads = 0, trace = []\<rparr>"

text \<open>The claims and the bodiless read request the test agent produces.\<close>

definition slaveClaims :: Claims where
  "slaveClaims = \<lparr>Role = ''slaveRole'', ClaimsIssuer = ''test'', ExpiresAt = 1700000005\<rparr>"

definition masterClaims :: Claims where
  "masterClaims = \<lparr>Role = ''masterRole'', ClaimsIssuer = ''test'', ExpiresAt = 1700000005\<rparr>"

definition probeRequest :: "string \<Rightarrow> http_Request" where
  "probeRequest urlStr =
    \<lparr>Method = ''GET'', URL = urlStr, Header = [(''Authorization'', ''Bearer secret'')],
     Body = None\<rparr>"





definition world1 :: world where
  "world1 = \<lparr>clockReads = 1,
      trace = [Signed slaveClaims ''slaveSecret'', Sent (probeRequest ''http://master'')]\<rparr>"

definition world2 :: world where
  "world2 = \<lparr>clockReads = 2,
      trace = [Signed slaveClaims ''slaveSecret'', Sent (probeRequest ''http://master''),
               Signed slaveClaims ''slaveSecret'', Sent (probeRequest ''http://slave'')]\<rparr>"

text \<open>The failing signer of the package's tests, and the test agent with it.\<close>

definition failingSigner :: "Claims \<Rightarrow> string \<Rightarrow> string \<times> error option" where
  "failingSigner claims secret = ([], Some (External ''mock error''))"

definition failingAgent :: Agent where
  "failingAgent = \<lparr>config = testConfig, httpClient = testClient, generateJWT = failingSigner\<rparr>"

text \<open>The request the test agent sends for \<^verbatim>\<open>Delete\<close>.\<close>

definition deleteRequest :: http_Request where
  "deleteRequest =
    \<lparr>Method = ''DELETE'', URL = ''http://master/test_table'',
     Header = [(''Authorization'', ''Bearer secret'')], Body = None\<rparr>"

section \<open>Configuration validation: results\<close>

lemma validateFields_append:
  "validateFields fs (acc @ acc') = acc @ validateFields fs acc'"
  by (induction fs arbitrary: acc') (simp_all add: Let_def)

lemma validateFields_config: "validateFields (configFields c) [] = missingFields c"
  unfolding configFields_def missingFields_def
  by (simp add: Let_def validateFields_append [of _ _ "[]", simplified, symmetric])

lemma sublist_Join: "n \<in> set names \<Longrightarrow> sublist n (Join names sep)"
proof (induction names sep rule: Join.induct)
  case (1 sep)
  then show ?case by simp
next
  case (2 x sep)
  then show ?case by simp
next
  case (3 x y ys sep)
  show ?case
  proof (cases "n = x")
    case True
    then show ?thesis by simp
  next
    case False
    with 3 have "sublist n (Join (y # ys) sep)" by simp
    then obtain ps ss where "Join (y # ys) sep = ps @ n @ ss"
      by (auto simp: sublist_def)
    then have "Join (x # y # ys) sep = (x @ sep @ ps) @ n @ ss" by simp
    then show ?thesis unfolding sublist_def by blast
  qed
qed

lemma sublist_invalidConfigMessage:
  "n \<in> set names \<Longrightarrow> sublist n (invalidConfigMessage names)"
proof -
  assume "n \<in> set names"
  then have "sublist n (Join names ''\<newline>- '')" by (rule sublist_Join)
  then obtain ps ss where "Join names ''\<newline>- '' = ps @ n @ ss"
    by (auto simp: sublist_def)
  then have "invalidConfigMessage names =
      (''postgrest error: invalid config parameters: \<newline>- '' @ ps) @ n @ ss"
    by (simp add: invalidConfigMessage_def)
  then show ?thesis unfolding sublist_def by blast
qed

lemma validateConfig_eq:
  "validateConfig c =
    (if missingFields c = [] then None
     else Some (Errorf (invalidConfigMessage (missingFields c))))"
  by (simp add: validateConfig_def validateFields_config invalidConfigMessage_def Let_def)

lemma missingFields_Issuer: "missingFields (c\<lparr>Issuer := i\<rparr>) = missingFields c"
  by (simp add: missingFields_def)

text \<open>
  Claim C6. For every configuration, \<^verbatim>\<open>validateConfig\<close> fails exactly when some required
  field is missing (a required string is empty, or the lifetime is not positive), and its
  message is the fixed prefix followed by the names of all such fields, so every one of
  them occurs in the message. With a transport and a signer given, \<^verbatim>\<open>NewAgent\<close> fails
  with that same error. The \<^verbatim>\<open>Issuer\<close> field has no influence on the result.
\<close>

theorem validateConfig_names_every_missing_field:
  "validateConfig c =
     (if missingFields c = [] then None
      else Some (Errorf (invalidConfigMessage (missingFields c))))
   \<and> (\<forall>n \<in> set (missingFields c). sublist n (invalidConfigMessage (missingFields c)))
   \<and> NewAgent (Some c) (Some h) (Some g) =
     (if missingFields c = [] then Inr \<lparr>config = c, httpClient = h, generateJWT = g\<rparr>
      else Inl (Errorf (invalidConfigMessage (missingFields c))))
   \<and> validateConfig (c\<lparr>Issuer := i\<rparr>) = validateConfig c"
  by (simp add: validateConfig_eq missingFields_Issuer NewAgent_def sublist_invalidConfigMessage)

theorem validateConfig_names_every_missing_field_witness:
  "NewAgent (Some emptyConfig) (Some testClient) (Some testSigner) =
     Inl (Errorf (''postgrest error: invalid config parameters: \<newline>- MasterBaseURL\<newline>- MasterRole\<newline>- MasterSecret\<newline>- SlaveBaseURL\<newline>- SlaveRole\<newline>- SlaveSecret\<newline>- Timeout''))
   \<and> missingFields emptyConfig =
     [''MasterBaseURL'', ''MasterRole'', ''MasterSecret'', ''SlaveBaseURL'', ''SlaveRole'',
      ''SlaveSecret'', ''Timeout'']
   \<and> sublist ''Timeout'' (invalidConfigMessage (missingFields emptyConfig))
   \<and> sublist ''MasterRole'' (invalidConfigMessage (missingFields emptyConfig))
   \<and> validateConfig (emptyConfig\<lparr>Issuer := ''Iris Test''\<rparr>) = validateConfig emptyConfig"
  using validateConfig_names_every_missing_field
          [of emptyConfig testClient testSigner "''Iris Test''"]
  by (simp add: emptyConfig_def missingFields_def invalidConfigMessage_def)

section \<open>URL builder: results\<close>

lemma testParse_old: "testParse ''http://slave/old?x=1'' =
   Inr \<lparr>Scheme = ''http'', Opaque = [], User = None, Host = ''slave'',
                  Path = ''/old'', RawPath = [], ForceQuery = False, RawQuery = ''x=1'', Fragment = []\<rparr>"
  by (simp add: testParse_def)

lemma testParse_slave: "testParse ''http://slave'' =
   Inr \<lparr>Scheme = ''http'', Opaque = [], User = None, Host = ''slave'',
                  Path = [], RawPath = [], ForceQuery = False, RawQuery = [], Fragment = []\<rparr>"
  by (simp add: testParse_def)

lemma testLib_sel:
  "timeNow testLib = (\<lambda>n. 1700000000123456789 + int n)"
  "urlParse testLib = testParse"
  "urlString testLib = testString"
  "valuesEncode testLib = testEncode"
  by (simp_all add: testLib_def)

lemma jsonEncode_test: "jsonEncode testLib payload = (Some payload, None)"
  by (simp add: jsonEncode_def testLib_def)

lemma testParse_bad: "testParse ''://xy/'' = Inl (External ''parse ://xy/: missing protocol scheme'')"
  by (simp add: testParse_def)

text \<open>
  Claim C3. An empty resource path gives the missing-path error whatever the base address
  and the parameters are, also for a base address that does not parse. Otherwise a base
  address that does not parse gives the parser's error, and one that parses gives the
  string of the parsed address with its path set to the resource path and its query set to
  the encoded parameters (the empty string for nil parameters): the path and the query the
  base address had do not reach the result. The function takes no state and returns
  none, so equal inputs give equal results.
\<close>

theorem buildURLStr_contract:
  "buildURLStr l baseURL [] q = Inl errMissingURLPath
   \<and> (path \<noteq> [] \<and> urlParse l baseURL = Inl err \<longrightarrow> buildURLStr l baseURL path q = Inl err)
   \<and> (path \<noteq> [] \<and> urlParse l baseURL = Inr u \<longrightarrow>
        buildURLStr l baseURL path None = Inr (urlString l (u\<lparr>Path := path, RawQuery := []\<rparr>))
        \<and> buildURLStr l baseURL path (Some v) =
            Inr (urlString l (u\<lparr>Path := path, RawQuery := valuesEncode l v\<rparr>)))
   \<and> (path \<noteq> [] \<and> urlParse l baseURL = Inr u
        \<and> urlParse l baseURL' = Inr (u\<lparr>Path := p', RawQuery := r'\<rparr>) \<longrightarrow>
        buildURLStr l baseURL' path q = buildURLStr l baseURL path q)"
  by (simp add: buildURLStr_def)

theorem buildURLStr_contract_witness:
  "buildURLStr testLib ''://xy/'' [] (Some [(''id'', [''7''])]) = Inl errMissingURLPath
   \<and> buildURLStr testLib ''://xy/'' ''test_table'' (Some [(''id'', [''7''])])
       = Inl (External ''parse ://xy/: missing protocol scheme'')
   \<and> buildURLStr testLib ''http://slave'' ''test_table'' None = Inr ''http://slave/test_table''
   \<and> buildURLStr testLib ''http://slave'' ''test_table'' (Some [(''id'', [''7''])])
       = Inr ''http://slave/test_table?id=7''
   \<and> buildURLStr testLib ''http://slave/old?x=1'' ''test_table'' (Some [(''id'', [''7''])])
       = buildURLStr testLib ''http://slave'' ''test_table'' (Some [(''id'', [''7''])])"
proof -
  note bad = buildURLStr_contract [where l = testLib and baseURL = "''://xy/''"
      and q = "Some [(''id'', [''7''])]" and path = "''test_table''"
      and err = "External ''parse ://xy/: missing protocol scheme''"]
  note good = buildURLStr_contract [where l = testLib and baseURL = "''http://slave''"
      and q = "Some [(''id'', [''7''])]" and path = "''test_table''"
      and v = "[(''id'', [''7''])]" and baseURL' = "''http://slave/old?x=1''"
      and p' = "''/old''" and r' = "''x=1''"
      and u = "\<lparr>Scheme = ''http'', Opaque = [], User = None, Host = ''slave'', Path = [],
                RawPath = [], ForceQuery = False, RawQuery = [], Fragment = []\<rparr>"]
  have c1: "buildURLStr testLib ''://xy/'' [] (Some [(''id'', [''7''])]) = Inl errMissingURLPath"
    using bad by simp
  have c2: "buildURLStr testLib ''://xy/'' ''test_table'' (Some [(''id'', [''7''])])
       = Inl (External ''parse ://xy/: missing protocol scheme'')"
    using bad by (simp add: testLib_sel testParse_bad)
  have c3: "buildURLStr testLib ''http://slave'' ''test_table'' None = Inr ''http://slave/test_table''"
    using good by (simp add: testLib_sel testParse_slave testString_def)
  have c4: "buildURLStr testLib ''http://slave'' ''test_table'' (Some [(''id'', [''7''])])
       = Inr ''http://slave/test_table?id=7''"
    using good by (simp add: testLib_sel testParse_slave testString_def testEncode_def)
  have c5: "buildURLStr testLib ''http://slave/old?x=1'' ''test_table'' (Some [(''id'', [''7''])])
       = buildURLStr testLib ''http://slave'' ''test_table'' (Some [(''id'', [''7''])])"
    using good by (simp add: testLib_sel testParse_slave testParse_old)
  from c1 c2 c3 c4 c5 show ?thesis by blast
qed

section \<open>Response normalisation: results\<close>

lemma testLib_decode:
  "jsonDecoderDecode testLib bs t =
     (if bs = ''true'' then (4, bs, None) else (1, t, Some (External ''invalid character'')))"
  by (simp add: testLib_def)

text \<open>
  Claim C7. When the status is a success, the target is not nil and the decoder fails, the
  function returns the decoder's own error together with the status 500, which is not the
  status of the response. When the status is outside \<open>[200, 300)\<close> it returns the status
  of the response and an error made of the request's method, its URL and the status text.
  The first error is the value the JSON library returned, the second one is built by the
  package.
\<close>

theorem unmarshalResponse_errors:
  "(isSuccess (StatusCode response)
      \<and> jsonDecoderDecode l (unread (RespBody response)) t = (n, t', Some err) \<longrightarrow>
        fst (unmarshalResponse l response (Some t)) = (500, Some err)
        \<and> StatusCode response \<noteq> 500)
   \<and> (\<not> isSuccess (StatusCode response) \<longrightarrow>
        fst (unmarshalResponse l response target) =
          (StatusCode response,
           Some (Errorf (''postgrest error ('' @ RequestMethod response @ '' ''
                           @ RequestURL response @ ''): '' @ Status response))))"
  by (auto simp add: unmarshalResponse_def isSuccess_def)

theorem unmarshalResponse_errors_witness:
  "fst (unmarshalResponse testLib badJSONResponse (Some ''old'')) =
      (500, Some (External ''invalid character''))
   \<and> fst (unmarshalResponse testLib notFoundResponse (Some ''old'')) =
      (404, Some (Errorf ''postgrest error (GET http://slave/tableNoExist): 404 Not Found''))"
proof -
  note dec = unmarshalResponse_errors [where l = testLib and response = badJSONResponse
      and t = "''old''" and n = 1 and t' = "''old''" and err = "External ''invalid character''"]
  note rem = unmarshalResponse_errors [where l = testLib and response = notFoundResponse
      and target = "Some ''old''"]
  have c1: "fst (unmarshalResponse testLib badJSONResponse (Some ''old'')) =
      (500, Some (External ''invalid character''))"
    using dec by (simp add: testLib_decode badJSONResponse_def isSuccess_def)
  have c2: "fst (unmarshalResponse testLib notFoundResponse (Some ''old'')) =
      (404, Some (Errorf ''postgrest error (GET http://slave/tableNoExist): 404 Not Found''))"
    using rem by (simp add: notFoundResponse_def isSuccess_def)
  from c1 c2 show ?thesis by blast
qed

text \<open>
  Claim C5, as stated, fails: the body is closed once, but nothing reads it on the
  remote-error path or when the target is nil. After a 404 response the bytes of the body
  are still unread.
\<close>

theorem unmarshalResponse_body_counterexample:
  "unread (snd (snd (unmarshalResponse testLib notFoundResponse (Some ''old''))))
     = ''Not Found''
   \<and> closes (snd (snd (unmarshalResponse testLib notFoundResponse (Some ''old'')))) = 1
   \<and> unread (snd (snd (unmarshalResponse testLib badJSONResponse None))) = ''test''"
  by (simp add: unmarshalResponse_def notFoundResponse_def badJSONResponse_def isSuccess_def Close_def)

text \<open>
  Claim C5, amended. On every exit path the body is closed exactly once. It is read only
  by the JSON decoder, on a success status with a target that is not nil, and then as far
  as the decoder reads; on the remote-error path and with a nil target no byte of it is
  read.
\<close>

theorem unmarshalResponse_closes_body_once:
  "closes (snd (snd (unmarshalResponse l response target))) = Suc (closes (RespBody response))
   \<and> unread (snd (snd (unmarshalResponse l response target))) =
       (if isSuccess (StatusCode response)
        then (case target of
            None \<Rightarrow> unread (RespBody response)
          | Some t \<Rightarrow> drop (fst (jsonDecoderDecode l (unread (RespBody response)) t))
                        (unread (RespBody response)))
        else unread (RespBody response))"
  by (simp add: unmarshalResponse_def Close_def split: option.splits prod.splits)

section \<open>Token issuer: results\<close>

lemma sint_times_Second:
  assumes "fitsInt64 (sint d * 1000000000)"
  shows "sint (d * Second) = sint d * 1000000000"
proof -
  have s: "sint Second = 1000000000" by (simp add: Second_def)
  have "sint (d * Second) = signed_take_bit (LENGTH(64) - 1) (sint d * sint Second)"
    by (rule sint_word_ariths)
  also have "\<dots> = sint d * 1000000000"
    using assms unfolding s fitsInt64_def
    by (simp add: signed_take_bit_int_eq_self_iff)
  finally show ?thesis .
qed

lemma Time_Unix_Add:
  assumes "fitsInt64 (sint d * 1000000000)"
  shows "Time_Unix (Time_Add t (d * Second)) = Time_Unix t + sint d"
  by (simp add: Time_Unix_def Time_Add_def sint_times_Second [OF assms])

lemma generateClaims_eq:
  assumes "fitsInt64 (sint (Timeout cfg) * 1000000000)"
  shows "generateClaims l role cfg w =
    (\<lparr>Role = role, ClaimsIssuer = Issuer cfg,
      ExpiresAt = Time_Unix (timeNow l (clockReads w)) + sint (Timeout cfg)\<rparr>,
     w\<lparr>clockReads := Suc (clockReads w)\<rparr>)"
  by (simp add: generateClaims_def Time_Unix_Add [OF assms])

text \<open>
  Claim C2, as stated, fails: the lifetime is multiplied by \<^verbatim>\<open>time.Second\<close> in
  \<^verbatim>\<open>int64\<close>, and the product wraps around. With the lifetime \<^verbatim>\<open>30 * time.Second\<close>
  the expiry lies before the clock's reading, not after it.
\<close>

theorem token_issuer_overflow_counterexample:
  "ExpiresAt (fst (generateClaims testLib ''slaveRole'' (testConfig\<lparr>Timeout := 30000000000\<rparr>) world0))
     = - 5193488148
   \<and> Time_Unix (timeNow testLib (clockReads world0)) = 1700000000"
  by (simp add: generateClaims_def testLib_sel world0_def Time_Unix_def Time_Add_def Second_def testConfig_def)

text \<open>
  Claim C2, amended. The lifetime counts seconds. Whenever that many seconds are an
  \<^verbatim>\<open>int64\<close> number of nanoseconds, the claims made for a role carry that role, the
  configured issuer, and as expiry the Unix time of the clock's reading plus the lifetime;
  the read token is made by handing exactly these claims for the replica role, with the
  replica secret, to the signer, and the write token likewise with the primary role and
  secret. The signer's token comes back behind \<^verbatim>\<open>Bearer\<close>, its error unchanged.
\<close>

theorem token_issuer_claims:
  "fitsInt64 (sint (Timeout (config agent)) * 1000000000) \<longrightarrow>
     generateClaims l role (config agent) w =
       (claimsFor l (config agent) role w, w\<lparr>clockReads := Suc (clockReads w)\<rparr>)
     \<and> generateReadTokenStr l agent w =
       ((''Bearer '' @ fst (generateJWT agent (claimsFor l (config agent) (SlaveRole (config agent)) w)
                              (SlaveSecret (config agent))),
         snd (generateJWT agent (claimsFor l (config agent) (SlaveRole (config agent)) w)
                (SlaveSecret (config agent)))),
        w\<lparr>clockReads := Suc (clockReads w),
          trace := trace w @ [Signed (claimsFor l (config agent) (SlaveRole (config agent)) w)
                                 (SlaveSecret (config agent))]\<rparr>)
     \<and> generateWriteTokenStr l agent w =
       ((''Bearer '' @ fst (generateJWT agent (claimsFor l (config agent) (MasterRole (config agent)) w)
                              (MasterSecret (config agent))),
         snd (generateJWT agent (claimsFor l (config agent) (MasterRole (config agent)) w)
                (MasterSecret (config agent)))),
        w\<lparr>clockReads := Suc (clockReads w),
          trace := trace w @ [Signed (claimsFor l (config agent) (MasterRole (config agent)) w)
                                 (MasterSecret (config agent))]\<rparr>)"
  by (simp add: generateReadTokenStr_def generateWriteTokenStr_def generateClaims_eq claimsFor_def
      split: prod.splits)

theorem token_issuer_claims_witness:
  "generateReadTokenStr testLib testAgent world0 =
     ((''Bearer secret'', None),
      \<lparr>clockReads = 1,
       trace = [Signed \<lparr>Role = ''slaveRole'', ClaimsIssuer = ''test'', ExpiresAt = 1700000005\<rparr>
                  ''slaveSecret'']\<rparr>)
   \<and> generateWriteTokenStr testLib testAgent world0 =
     ((''Bearer secret'', None),
      \<lparr>clockReads = 1,
       trace = [Signed \<lparr>Role = ''masterRole'', ClaimsIssuer = ''test'', ExpiresAt = 1700000005\<rparr>
                  ''masterSecret'']\<rparr>)"
proof -
  have fits: "fitsInt64 (sint (Timeout (config testAgent)) * 1000000000)"
    by (simp add: testAgent_def testConfig_def fitsInt64_def)
  note T = token_issuer_claims [where agent = testAgent and l = testLib and w = world0
      and role = "''slaveRole''"]
  from T fits show ?thesis
    by (simp add: testAgent_def testConfig_def world0_def claimsFor_def testSigner_def
        testLib_sel Time_Unix_def)
qed

section \<open>Request dispatcher: results\<close>

lemma identities_append: "identities (xs @ ys) = identities xs @ identities ys"
  by (induction xs rule: identities.induct) simp_all

lemma sentRequests_append: "sentRequests (xs @ ys) = sentRequests xs @ sentRequests ys"
  by (induction xs rule: sentRequests.induct) simp_all

lemma newEvents_append: "trace w' = trace w @ evs \<Longrightarrow> newEvents w w' = evs"
  by (simp add: newEvents_def)

lemma Role_generateClaims: "Role (fst (generateClaims l role cfg w)) = role"
  by (simp add: generateClaims_def)

lemma generateReadTokenStr_eq:
  "generateReadTokenStr l agent w =
    ((''Bearer '' @ fst (generateJWT agent (fst (generateClaims l (SlaveRole (config agent)) (config agent) w))
                          (SlaveSecret (config agent))),
      snd (generateJWT agent (fst (generateClaims l (SlaveRole (config agent)) (config agent) w))
             (SlaveSecret (config agent)))),
     w\<lparr>clockReads := Suc (clockReads w),
       trace := trace w @ [Signed (fst (generateClaims l (SlaveRole (config agent)) (config agent) w))
                              (SlaveSecret (config agent))]\<rparr>)"
  by (simp add: generateReadTokenStr_def generateClaims_def split: prod.splits)

lemma generateWriteTokenStr_eq:
  "generateWriteTokenStr l agent w =
    ((''Bearer '' @ fst (generateJWT agent (fst (generateClaims l (MasterRole (config agent)) (config agent) w))
                          (MasterSecret (config agent))),
      snd (generateJWT agent (fst (generateClaims l (MasterRole (config agent)) (config agent) w))
             (MasterSecret (config agent)))),
     w\<lparr>clockReads := Suc (clockReads w),
       trace := trace w @ [Signed (fst (generateClaims l (MasterRole (config agent)) (config agent) w))
                              (MasterSecret (config agent))]\<rparr>)"
  by (simp add: generateWriteTokenStr_def generateClaims_def split: prod.splits)

lemma identities_signedEvent:
  "identities (signedEvent l agent method w # es) = identityFor (config agent) method # identities es"
  by (simp add: signedEvent_def Role_generateClaims)

lemma sentRequests_signedEvent: "sentRequests (signedEvent l agent method w # es) = sentRequests es"
  by (simp add: signedEvent_def)

lemma NewRequest_trace:
  "trace (snd (NewRequest l agent method urlStr body w)) =
     trace w @ (if urlStr = [] \<or> method = [] then [] else [signedEvent l agent method w])"
  by (simp add: NewRequest_def newReadRequest_def newWriteRequest_def generateReadTokenStr_eq
      generateWriteTokenStr_eq signedEvent_def identityFor_def split: option.splits)

lemma NewRequest_Inr:
  "NewRequest l agent method urlStr body w = (Inr request, w') \<Longrightarrow>
     Method request = method \<and> URL request = urlStr
     \<and> Body request = (if method = ''GET'' then None else body)
     \<and> urlStr \<noteq> [] \<and> method \<noteq> []"
  by (auto simp add: NewRequest_def newReadRequest_def newWriteRequest_def generateReadTokenStr_eq
      generateWriteTokenStr_eq newRequest_def http_NewRequest_def
      split: option.splits if_splits sum.splits)

lemma sendRequest_trace:
  "trace (snd (sendRequest l agent method urlStr body w)) =
     trace (snd (NewRequest l agent method urlStr body w))
     @ (case fst (NewRequest l agent method urlStr body w) of
          Inl err \<Rightarrow> [] | Inr request \<Rightarrow> [Sent request])"
  by (simp add: sendRequest_def Do_def split: prod.splits sum.splits)

lemma sentAs_Nil: "sentAs method urlStr body ident []"
  by (simp add: sentAs_def)

lemma newEvents_same: "newEvents w w = []"
  by (simp add: newEvents_def)

lemma sendRequest_newEvents:
  "newEvents w (snd (sendRequest l agent method urlStr body w)) =
     (if urlStr = [] \<or> method = [] then [] else [signedEvent l agent method w])
     @ (case fst (NewRequest l agent method urlStr body w) of
          Inl err \<Rightarrow> [] | Inr request \<Rightarrow> [Sent request])"
  by (rule newEvents_append) (simp add: sendRequest_trace NewRequest_trace)

lemma sendRequest_sentAs:
  "sentAs method urlStr (if method = ''GET'' then None else body) (identityFor (config agent) method)
     (newEvents w (snd (sendRequest l agent method urlStr body w)))"
proof (cases "NewRequest l agent method urlStr body w")
  case (Pair res w')
  show ?thesis
  proof (cases res)
    case (Inl err)
    with Pair show ?thesis
      by (simp add: sendRequest_newEvents sentAs_def identities_signedEvent sentRequests_signedEvent)
  next
    case (Inr request)
    with Pair have "NewRequest l agent method urlStr body w = (Inr request, w')" by simp
    from NewRequest_Inr [OF this] Pair Inr show ?thesis
      by (simp add: sendRequest_newEvents sentAs_def identities_append sentRequests_append
          identities_signedEvent sentRequests_signedEvent)
  qed
qed










lemma Delete_world:
  "snd (Delete l agent table query w) =
    (case buildURLStr l (MasterBaseURL (config agent)) table query of
       Inl err \<Rightarrow> w | Inr urlStr \<Rightarrow> snd (sendRequest l agent ''DELETE'' urlStr None w))"
  by (simp add: Delete_def split: sum.splits)

lemma GetJSON_world: "snd (GetJSON l agent table query target w) = snd (Get l agent table query w)"
  by (simp add: GetJSON_def split: prod.splits sum.splits)

lemma DeleteJSON_world: "snd (DeleteJSON l agent table query w) = snd (Delete l agent table query w)"
  by (simp add: DeleteJSON_def split: prod.splits sum.splits)

lemma PatchJSON_world:
  "snd (PatchJSON l agent table query payload w) =
    (case snd (jsonEncode l payload) of
       Some err \<Rightarrow> w
     | None \<Rightarrow> snd (Patch l agent table query (fst (jsonEncode l payload)) w))"
  by (simp add: PatchJSON_def split: prod.splits sum.splits option.splits)

lemma PostJSON_world:
  "snd (PostJSON l agent table payload target w) =
    (case snd (jsonEncode l payload) of
       Some err \<Rightarrow> w
     | None \<Rightarrow>
        if target = None then snd (Post l agent table (fst (jsonEncode l payload)) w)
        else snd (PostAndReturn l agent table (fst (jsonEncode l payload)) w))"
  by (simp add: PostJSON_def split: prod.splits sum.splits option.splits)




lemma Delete_sentAs:
  "buildURLStr l (MasterBaseURL (config agent)) table query = Inr urlStr \<Longrightarrow>
   sentAs ''DELETE'' urlStr None (MasterRole (config agent), MasterSecret (config agent))
     (newEvents w (snd (Delete l agent table query w)))"
  using sendRequest_sentAs [of "''DELETE''" urlStr None agent w l]
  by (simp add: Delete_world identityFor_def)









lemma NewRequest_accepted:
  assumes "accepted l agent method urlStr w"
  shows "fst (NewRequest l agent method urlStr body w) = Inr (requestFor l agent method urlStr body w)"
  using assms
  by (cases "method = ''GET''")
     (simp_all add: accepted_def signerResult_def requestFor_def identityFor_def NewRequest_def
       newReadRequest_def newWriteRequest_def generateReadTokenStr_eq generateWriteTokenStr_eq
       newRequest_def http_NewRequest_def)

lemma sendRequest_accepted:
  assumes "accepted l agent method urlStr w"
  shows "newEvents w (snd (sendRequest l agent method urlStr body w)) =
      [signedEvent l agent method w, Sent (requestFor l agent method urlStr body w)]"
  using assms
  by (simp add: sendRequest_newEvents NewRequest_accepted [OF assms]) (simp add: accepted_def)









lemma sent_Delete:
  assumes "buildURLStr l (MasterBaseURL (config agent)) table query = Inr urlD"
    and "accepted l agent ''DELETE'' urlD w"
  shows "sentRequests (newEvents w (snd (Delete l agent table query w))) =
      [\<lparr>Method = ''DELETE'', URL = urlD,
        Header = [(''Authorization'', ''Bearer '' @ fst (signerResult l agent ''DELETE'' w))],
        Body = None\<rparr>]"
  by (simp add: Delete_world assms(1) sendRequest_accepted [OF assms(2)]
      sentRequests_signedEvent requestFor_def)


lemma testLib_newRequestError:
  "httpNewRequestError testLib method urlStr =
     (case testParse urlStr of Inl err \<Rightarrow> Some err | Inr u \<Rightarrow> None)"
  by (simp add: testLib_def)

lemmas example_defs =
  sendRequest_def NewRequest_def newReadRequest_def newWriteRequest_def
  generateReadTokenStr_def generateWriteTokenStr_def generateClaims_def newRequest_def
  http_NewRequest_def Do_def testAgent_def testConfig_def testSigner_def testClient_def
  okResponse_def isSuccess_def world0_def testLib_sel testLib_newRequestError
  Time_Unix_def Time_Add_def Second_def slaveClaims_def masterClaims_def probeRequest_def






lemma buildURLStr_testAgent_master:
  "buildURLStr testLib (MasterBaseURL (config testAgent)) ''test_table'' None
     = Inr ''http://master/test_table''"
  by (simp add: buildURLStr_def testAgent_def testConfig_def testLib_sel testParse_def
      testString_def)

lemma accepted_testAgent:
  "accepted testLib testAgent ''GET'' ''http://slave/test_table'' world0"
  "accepted testLib testAgent ''POST'' ''http://master/test_table'' world0"
  "accepted testLib testAgent ''PATCH'' ''http://master/test_table'' world0"
  "accepted testLib testAgent ''DELETE'' ''http://master/test_table'' world0"
  "accepted testLib testAgent ''PUT'' ''http://slave/test_table'' world0"
  by (simp_all add: accepted_def signerResult_def testAgent_def testSigner_def
      testLib_newRequestError testParse_def)

lemma signerResult_testAgent: "signerResult testLib testAgent m w = (''secret'', None)"
  by (simp add: signerResult_def testAgent_def testSigner_def)


section \<open>Health check: results\<close>

lemma Ping_eq:
  "Ping l agent w =
    (if probeFailed (fst (probeMaster l agent w))
     then (Some (Errorf (''master service error: '' @ probeMessage (fst (probeMaster l agent w)))),
           snd (probeMaster l agent w))
     else if probeFailed (fst (probeSlave l agent (snd (probeMaster l agent w))))
     then (Some (Errorf (''slave service error: ''
                   @ probeMessage (fst (probeSlave l agent (snd (probeMaster l agent w)))))),
           snd (probeSlave l agent (snd (probeMaster l agent w))))
     else (None, snd (probeSlave l agent (snd (probeMaster l agent w)))))"
proof (cases "probeMaster l agent w")
  case m: (Pair rm wm)
  show ?thesis
  proof (cases "probeSlave l agent wm")
    case s: (Pair rs ws)
    from m s show ?thesis
      unfolding Ping_def probeMaster_def probeSlave_def
      by (cases rm; cases rs) simp_all
  qed
qed

lemma sendRequest_extends:
  "trace (snd (sendRequest l agent method urlStr body w)) =
     trace w @ newEvents w (snd (sendRequest l agent method urlStr body w))"
  by (simp add: sendRequest_newEvents) (simp add: sendRequest_trace NewRequest_trace)

lemma newEvents_trans:
  "trace w1 = trace w @ evs1 \<Longrightarrow> trace w2 = trace w1 @ evs2 \<Longrightarrow> newEvents w w2 = evs1 @ evs2"
  by (simp add: newEvents_def)

lemma Ping_newEvents:
  "newEvents w (snd (Ping l agent w)) =
     newEvents w (snd (probeMaster l agent w))
     @ (if probeFailed (fst (probeMaster l agent w)) then []
        else newEvents (snd (probeMaster l agent w))
               (snd (probeSlave l agent (snd (probeMaster l agent w)))))"
proof -
  have m: "trace (snd (probeMaster l agent w)) = trace w @ newEvents w (snd (probeMaster l agent w))"
    unfolding probeMaster_def by (rule sendRequest_extends)
  have s: "trace (snd (probeSlave l agent (snd (probeMaster l agent w)))) =
      trace (snd (probeMaster l agent w))
      @ newEvents (snd (probeMaster l agent w)) (snd (probeSlave l agent (snd (probeMaster l agent w))))"
    unfolding probeSlave_def by (rule sendRequest_extends)
  show ?thesis
    using newEvents_trans [OF m s] by (simp add: Ping_eq)
qed

lemma probeMaster_sentAs:
  "sentAs ''GET'' (MasterBaseURL (config agent)) None (SlaveRole (config agent), SlaveSecret (config agent))
     (newEvents w (snd (probeMaster l agent w)))"
  using sendRequest_sentAs [of "''GET''" "MasterBaseURL (config agent)" None agent w l]
  by (simp add: probeMaster_def identityFor_def)

lemma probeSlave_sentAs:
  "sentAs ''GET'' (SlaveBaseURL (config agent)) None (SlaveRole (config agent), SlaveSecret (config agent))
     (newEvents w (snd (probeSlave l agent w)))"
  using sendRequest_sentAs [of "''GET''" "SlaveBaseURL (config agent)" None agent w l]
  by (simp add: probeSlave_def identityFor_def)




lemmas probe_defs = world1_def world2_def
  probeMaster_def probeSlave_def sendRequest_def NewRequest_def newReadRequest_def
  generateReadTokenStr_def generateClaims_def newRequest_def http_NewRequest_def Do_def
  testConfig_def testSigner_def isSuccess_def world0_def testLib_sel testLib_newRequestError
  Time_Unix_def Time_Add_def Second_def slaveClaims_def probeRequest_def testParse_def




lemma probeMaster_test:
  "probeMaster testLib testAgent world0 =
    (Inr (okResponse (probeRequest ''http://master'')),
     world1)"
  by (simp add: probe_defs testAgent_def testClient_def)

lemma probeSlave_test:
  "probeSlave testLib testAgent
     world1 =
    (Inr (okResponse (probeRequest ''http://slave'')),
     world2)"
  by (simp add: probe_defs testAgent_def testClient_def)


text \<open>
  Claim C9. Both probes of \<^verbatim>\<open>Ping\<close> are \<^verbatim>\<open>GET\<close> requests without a body, the one to
  the primary address included, and every signing call \<^verbatim>\<open>Ping\<close> makes uses the replica
  role with the replica secret: the primary role and secret are not used.
\<close>

theorem Ping_uses_replica_identity:
  "sentAs ''GET'' (MasterBaseURL (config agent)) None
      (SlaveRole (config agent), SlaveSecret (config agent))
      (newEvents w (snd (probeMaster l agent w)))
   \<and> sentAs ''GET'' (SlaveBaseURL (config agent)) None
      (SlaveRole (config agent), SlaveSecret (config agent))
      (newEvents (snd (probeMaster l agent w))
         (snd (probeSlave l agent (snd (probeMaster l agent w)))))
   \<and> newEvents w (snd (Ping l agent w)) =
       newEvents w (snd (probeMaster l agent w))
       @ (if probeFailed (fst (probeMaster l agent w)) then []
          else newEvents (snd (probeMaster l agent w))
                 (snd (probeSlave l agent (snd (probeMaster l agent w)))))
   \<and> (\<forall>i \<in> set (identities (newEvents w (snd (Ping l agent w)))).
         i = (SlaveRole (config agent), SlaveSecret (config agent)))
   \<and> (\<forall>request \<in> set (sentRequests (newEvents w (snd (Ping l agent w)))).
         Method request = ''GET'' \<and> Body request = None)"
proof -
  note m = probeMaster_sentAs [of agent w l]
  note s = probeSlave_sentAs [of agent "snd (probeMaster l agent w)" l]
  have i: "\<forall>i \<in> set (identities (newEvents w (snd (Ping l agent w)))).
         i = (SlaveRole (config agent), SlaveSecret (config agent))"
    using m s by (auto simp add: Ping_newEvents identities_append sentAs_def)
  have r: "\<forall>request \<in> set (sentRequests (newEvents w (snd (Ping l agent w)))).
         Method request = ''GET'' \<and> Body request = None"
    using m s by (auto simp add: Ping_newEvents sentRequests_append sentAs_def)
  from m s i r Ping_newEvents [of w l agent] show ?thesis by blast
qed

theorem Ping_uses_replica_identity_witness:
  "sentAs ''GET'' ''http://master'' None (''slaveRole'', ''slaveSecret'')
      [Signed slaveClaims ''slaveSecret'', Sent (probeRequest ''http://master'')]
   \<and> identities (newEvents world0 (snd (Ping testLib testAgent world0))) =
       [(''slaveRole'', ''slaveSecret''), (''slaveRole'', ''slaveSecret'')]
   \<and> sentRequests (newEvents world0 (snd (Ping testLib testAgent world0))) =
       [probeRequest ''http://master'', probeRequest ''http://slave'']"
proof -
  note T = Ping_uses_replica_identity [of testAgent world0 testLib]
  have ev: "newEvents world0 (snd (probeMaster testLib testAgent world0)) =
      [Signed slaveClaims ''slaveSecret'', Sent (probeRequest ''http://master'')]"
    by (simp add: probeMaster_test newEvents_def) (simp add: world0_def world1_def)
  have ev2: "newEvents (snd (probeMaster testLib testAgent world0))
      (snd (probeSlave testLib testAgent (snd (probeMaster testLib testAgent world0)))) =
      [Signed slaveClaims ''slaveSecret'', Sent (probeRequest ''http://slave'')]"
    by (simp add: probeMaster_test probeSlave_test newEvents_def) (simp add: world1_def world2_def)
  have c1: "sentAs ''GET'' ''http://master'' None (''slaveRole'', ''slaveSecret'')
      [Signed slaveClaims ''slaveSecret'', Sent (probeRequest ''http://master'')]"
    using T unfolding ev by (simp add: testAgent_def testConfig_def)
  have all: "newEvents world0 (snd (Ping testLib testAgent world0)) =
      [Signed slaveClaims ''slaveSecret'', Sent (probeRequest ''http://master''),
       Signed slaveClaims ''slaveSecret'', Sent (probeRequest ''http://slave'')]"
    using T unfolding ev ev2
    by (simp add: probeMaster_test okResponse_def isSuccess_def)
  have c2: "identities (newEvents world0 (snd (Ping testLib testAgent world0))) =
       [(''slaveRole'', ''slaveSecret''), (''slaveRole'', ''slaveSecret'')]"
    unfolding all by (simp add: slaveClaims_def)
  have c3: "sentRequests (newEvents world0 (snd (Ping testLib testAgent world0))) =
       [probeRequest ''http://master'', probeRequest ''http://slave'']"
    unfolding all by simp
  from c1 c2 c3 show ?thesis by blast
qed

section \<open>Signing failures and DELETE: results\<close>

lemma NewRequest_signer_fails:
  assumes "\<And>claims secret. snd (generateJWT agent claims secret) = Some e"
    and "urlStr \<noteq> []" and "method \<noteq> []"
  shows "fst (NewRequest l agent method urlStr body w) = Inl e"
  using assms(2,3)
  by (simp add: NewRequest_def newReadRequest_def newWriteRequest_def generateReadTokenStr_eq
      generateWriteTokenStr_eq assms(1))

lemma sendRequest_Inl:
  "fst (NewRequest l agent method urlStr body w) = Inl e \<Longrightarrow>
   sendRequest l agent method urlStr body w = (Inl e, snd (NewRequest l agent method urlStr body w))"
  by (cases "NewRequest l agent method urlStr body w") (simp add: sendRequest_def)

lemma NewRequest_nothingSent: "nothingSent w (snd (NewRequest l agent method urlStr body w))"
  unfolding nothingSent_def
  by (simp add: newEvents_append [OF NewRequest_trace] sentRequests_signedEvent)

lemma sendRequest_signer_fails:
  assumes "\<And>claims secret. snd (generateJWT agent claims secret) = Some e"
    and "urlStr \<noteq> []" and "method \<noteq> []"
  shows "fst (sendRequest l agent method urlStr body w) = Inl e
     \<and> nothingSent w (snd (sendRequest l agent method urlStr body w))"
  using sendRequest_Inl [OF NewRequest_signer_fails [OF assms, of l body w]]
  by (simp add: NewRequest_nothingSent)

lemma PostAndReturn_signer_fails:
  assumes "\<And>claims secret. snd (generateJWT agent claims secret) = Some e"
    and b: "buildURLStr l (MasterBaseURL (config agent)) table None = Inr urlStr"
    and "urlStr \<noteq> []"
  shows "fst (PostAndReturn l agent table body w) = Inl e
     \<and> nothingSent w (snd (PostAndReturn l agent table body w))"
proof -
  have n: "fst (NewRequest l agent ''POST'' urlStr body w) = Inl e"
    by (rule NewRequest_signer_fails [OF assms(1) assms(3)]) simp
  then have "PostAndReturn l agent table body w =
      (Inl e, snd (NewRequest l agent ''POST'' urlStr body w))"
    by (cases "NewRequest l agent ''POST'' urlStr body w") (simp add: PostAndReturn_def b)
  then show ?thesis by (simp add: NewRequest_nothingSent)
qed

text \<open>
  Claim C8. Let the signer fail with the error \<open>e\<close> whatever it is given. Then
  \<^verbatim>\<open>NewRequest\<close> with a URL and a method, and every read and write operation whose URL
  can be built and is not empty (and, for \<^verbatim>\<open>PostJSON\<close> and \<^verbatim>\<open>PatchJSON\<close>, whose
  payload can be encoded), returns exactly \<open>e\<close>: as the error of the raw variants, and
  with the status 0 in the \<^verbatim>\<open>JSON\<close> variants. In each case no request reaches the
  transport.
\<close>

theorem signing_failure_propagates:
  assumes signer: "\<And>claims secret. snd (generateJWT agent claims secret) = Some e"
  shows
  "(urlStr \<noteq> [] \<and> method \<noteq> [] \<longrightarrow>
      fst (NewRequest l agent method urlStr body w) = Inl e
      \<and> nothingSent w (snd (NewRequest l agent method urlStr body w)))
   \<and> (buildURLStr l (SlaveBaseURL (config agent)) table query = Inr urlS \<and> urlS \<noteq> [] \<longrightarrow>
      fst (Get l agent table query w) = Inl e
      \<and> nothingSent w (snd (Get l agent table query w))
      \<and> fst (GetJSON l agent table query target w) = ((0, Some e), target)
      \<and> nothingSent w (snd (GetJSON l agent table query target w)))
   \<and> (buildURLStr l (MasterBaseURL (config agent)) table None = Inr urlP \<and> urlP \<noteq> [] \<longrightarrow>
      fst (Post l agent table body w) = Inl e
      \<and> nothingSent w (snd (Post l agent table body w))
      \<and> fst (PostAndReturn l agent table body w) = Inl e
      \<and> nothingSent w (snd (PostAndReturn l agent table body w))
      \<and> (snd (jsonEncode l payload) = None \<longrightarrow>
           fst (PostJSON l agent table payload target w) = ((0, Some e), target)
           \<and> nothingSent w (snd (PostJSON l agent table payload target w))))
   \<and> (buildURLStr l (MasterBaseURL (config agent)) table query = Inr urlM \<and> urlM \<noteq> [] \<longrightarrow>
      fst (Patch l agent table query body w) = Inl e
      \<and> nothingSent w (snd (Patch l agent table query body w))
      \<and> (snd (jsonEncode l payload) = None \<longrightarrow>
           fst (PatchJSON l agent table query payload w) = (0, Some e)
           \<and> nothingSent w (snd (PatchJSON l agent table query payload w)))
      \<and> fst (Delete l agent table query w) = Inl e
      \<and> nothingSent w (snd (Delete l agent table query w))
      \<and> fst (DeleteJSON l agent table query w) = (0, Some e)
      \<and> nothingSent w (snd (DeleteJSON l agent table query w)))"
proof -
  note S = sendRequest_signer_fails [OF signer]
  have c1: "urlStr \<noteq> [] \<and> method \<noteq> [] \<longrightarrow>
      fst (NewRequest l agent method urlStr body w) = Inl e
      \<and> nothingSent w (snd (NewRequest l agent method urlStr body w))"
    by (simp add: NewRequest_signer_fails [OF signer] NewRequest_nothingSent)
  have c2: "buildURLStr l (SlaveBaseURL (config agent)) table query = Inr urlS \<and> urlS \<noteq> [] \<longrightarrow>
      fst (Get l agent table query w) = Inl e
      \<and> nothingSent w (snd (Get l agent table query w))
      \<and> fst (GetJSON l agent table query target w) = ((0, Some e), target)
      \<and> nothingSent w (snd (GetJSON l agent table query target w))"
  proof
    assume a: "buildURLStr l (SlaveBaseURL (config agent)) table query = Inr urlS \<and> urlS \<noteq> []"
    then have g: "Get l agent table query w = sendRequest l agent ''GET'' urlS None w"
      by (simp add: Get_def)
    from a S [of urlS "''GET''" l None w]
    have g1: "fst (Get l agent table query w) = Inl e"
      and g2: "nothingSent w (snd (Get l agent table query w))"
      by (simp_all add: g)
    from g1 have "fst (GetJSON l agent table query target w) = ((0, Some e), target)"
      by (cases "Get l agent table query w") (simp add: GetJSON_def)
    with g1 g2 show "fst (Get l agent table query w) = Inl e
      \<and> nothingSent w (snd (Get l agent table query w))
      \<and> fst (GetJSON l agent table query target w) = ((0, Some e), target)
      \<and> nothingSent w (snd (GetJSON l agent table query target w))"
      by (simp add: GetJSON_world)
  qed
  have c3: "buildURLStr l (MasterBaseURL (config agent)) table None = Inr urlP \<and> urlP \<noteq> [] \<longrightarrow>
      fst (Post l agent table body w) = Inl e
      \<and> nothingSent w (snd (Post l agent table body w))
      \<and> fst (PostAndReturn l agent table body w) = Inl e
      \<and> nothingSent w (snd (PostAndReturn l agent table body w))
      \<and> (snd (jsonEncode l payload) = None \<longrightarrow>
           fst (PostJSON l agent table payload target w) = ((0, Some e), target)
           \<and> nothingSent w (snd (PostJSON l agent table payload target w)))"
  proof
    assume a: "buildURLStr l (MasterBaseURL (config agent)) table None = Inr urlP \<and> urlP \<noteq> []"
    then have b: "buildURLStr l (MasterBaseURL (config agent)) table None = Inr urlP"
      and ne: "urlP \<noteq> []" by simp_all
    have p: "\<And>bd. Post l agent table bd w = sendRequest l agent ''POST'' urlP bd w"
      by (simp add: Post_def b)
    have p1: "\<And>bd. fst (Post l agent table bd w) = Inl e"
      and p2: "\<And>bd. nothingSent w (snd (Post l agent table bd w))"
      using S [of urlP "''POST''" l _ w] ne by (simp_all add: p)
    note r = PostAndReturn_signer_fails [OF signer b ne]
    have j: "snd (jsonEncode l payload) = None \<longrightarrow>
           fst (PostJSON l agent table payload target w) = ((0, Some e), target)
           \<and> nothingSent w (snd (PostJSON l agent table payload target w))"
    proof
      assume enc: "snd (jsonEncode l payload) = None"
      obtain bd where bd: "jsonEncode l payload = (bd, None)"
        using enc by (cases "jsonEncode l payload") simp
      have r1: "fst (PostAndReturn l agent table bd w) = Inl e" using r [of bd w] by simp
      have "fst (PostJSON l agent table payload target w) = ((0, Some e), target)"
        using p1 [of bd] r1
        by (cases "Post l agent table bd w"; cases "PostAndReturn l agent table bd w")
           (simp add: PostJSON_def bd)
      moreover have "nothingSent w (snd (PostJSON l agent table payload target w))"
        using p2 [of bd] r [of bd w] by (simp add: PostJSON_world bd)
      ultimately show "fst (PostJSON l agent table payload target w) = ((0, Some e), target)
           \<and> nothingSent w (snd (PostJSON l agent table payload target w))"
        by blast
    qed
    from p1 [of body] p2 [of body] r [of body w] j
    show "fst (Post l agent table body w) = Inl e
      \<and> nothingSent w (snd (Post l agent table body w))
      \<and> fst (PostAndReturn l agent table body w) = Inl e
      \<and> nothingSent w (snd (PostAndReturn l agent table body w))
      \<and> (snd (jsonEncode l payload) = None \<longrightarrow>
           fst (PostJSON l agent table payload target w) = ((0, Some e), target)
           \<and> nothingSent w (snd (PostJSON l agent table payload target w)))"
      by blast
  qed
  have c4: "buildURLStr l (MasterBaseURL (config agent)) table query = Inr urlM \<and> urlM \<noteq> [] \<longrightarrow>
      fst (Patch l agent table query body w) = Inl e
      \<and> nothingSent w (snd (Patch l agent table query body w))
      \<and> (snd (jsonEncode l payload) = None \<longrightarrow>
           fst (PatchJSON l agent table query payload w) = (0, Some e)
           \<and> nothingSent w (snd (PatchJSON l agent table query payload w)))
      \<and> fst (Delete l agent table query w) = Inl e
      \<and> nothingSent w (snd (Delete l agent table query w))
      \<and> fst (DeleteJSON l agent table query w) = (0, Some e)
      \<and> nothingSent w (snd (DeleteJSON l agent table query w))"
  proof
    assume a: "buildURLStr l (MasterBaseURL (config agent)) table query = Inr urlM \<and> urlM \<noteq> []"
    then have b: "buildURLStr l (MasterBaseURL (config agent)) table query = Inr urlM"
      and ne: "urlM \<noteq> []" by simp_all
    have p: "\<And>bd. Patch l agent table query bd w = sendRequest l agent ''PATCH'' urlM bd w"
      by (simp add: Patch_def b)
    have p1: "\<And>bd. fst (Patch l agent table query bd w) = Inl e"
      and p2: "\<And>bd. nothingSent w (snd (Patch l agent table query bd w))"
      using S [of urlM "''PATCH''" l _ w] ne by (simp_all add: p)
    have d: "Delete l agent table query w = sendRequest l agent ''DELETE'' urlM None w"
      by (simp add: Delete_def b)
    have d1: "fst (Delete l agent table query w) = Inl e"
      and d2: "nothingSent w (snd (Delete l agent table query w))"
      using S [of urlM "''DELETE''" l None w] ne by (simp_all add: d)
    from d1 have d3: "fst (DeleteJSON l agent table query w) = (0, Some e)"
      by (cases "Delete l agent table query w") (simp add: DeleteJSON_def)
    have j: "snd (jsonEncode l payload) = None \<longrightarrow>
           fst (PatchJSON l agent table query payload w) = (0, Some e)
           \<and> nothingSent w (snd (PatchJSON l agent table query payload w))"
    proof
      assume enc: "snd (jsonEncode l payload) = None"
      obtain bd where bd: "jsonEncode l payload = (bd, None)"
        using enc by (cases "jsonEncode l payload") simp
      have "fst (PatchJSON l agent table query payload w) = (0, Some e)"
        using p1 [of bd]
        by (cases "Patch l agent table query bd w") (simp add: PatchJSON_def bd)
      moreover have "nothingSent w (snd (PatchJSON l agent table query payload w))"
        using p2 [of bd] by (simp add: PatchJSON_world bd)
      ultimately show "fst (PatchJSON l agent table query payload w) = (0, Some e)
           \<and> nothingSent w (snd (PatchJSON l agent table query payload w))"
        by blast
    qed
    from p1 [of body] p2 [of body] d1 d2 d3 j
    show "fst (Patch l agent table query body w) = Inl e
      \<and> nothingSent w (snd (Patch l agent table query body w))
      \<and> (snd (jsonEncode l payload) = None \<longrightarrow>
           fst (PatchJSON l agent table query payload w) = (0, Some e)
           \<and> nothingSent w (snd (PatchJSON l agent table query payload w)))
      \<and> fst (Delete l agent table query w) = Inl e
      \<and> nothingSent w (snd (Delete l agent table query w))
      \<and> fst (DeleteJSON l agent table query w) = (0, Some e)
      \<and> nothingSent w (snd (DeleteJSON l agent table query w))"
      by (simp add: DeleteJSON_world)
  qed
  from c1 c2 c3 c4 show ?thesis by blast
qed

lemma buildURLStr_test_slave:
  "buildURLStr testLib (SlaveBaseURL (config failingAgent)) ''test_table'' None
     = Inr ''http://slave/test_table''"
  by (simp add: buildURLStr_def failingAgent_def testConfig_def testLib_sel testParse_slave
      testString_def)

lemma buildURLStr_test_master:
  "buildURLStr testLib (MasterBaseURL (config failingAgent)) ''test_table'' None
     = Inr ''http://master/test_table''"
  by (simp add: buildURLStr_def failingAgent_def testConfig_def testLib_sel testParse_def
      testString_def)

theorem signing_failure_propagates_witness:
  "fst (NewRequest testLib failingAgent ''PUT'' ''http://master/test_table'' None world0)
      = Inl (External ''mock error'')
   \<and> fst (Get testLib failingAgent ''test_table'' None world0) = Inl (External ''mock error'')
   \<and> fst (GetJSON testLib failingAgent ''test_table'' None (Some ''old'') world0)
      = ((0, Some (External ''mock error'')), Some ''old'')
   \<and> fst (PostJSON testLib failingAgent ''test_table'' ''{}'' (Some ''old'') world0)
      = ((0, Some (External ''mock error'')), Some ''old'')
   \<and> nothingSent world0 (snd (PostJSON testLib failingAgent ''test_table'' ''{}'' (Some ''old'') world0))
   \<and> fst (PatchJSON testLib failingAgent ''test_table'' None ''{}'' world0)
      = (0, Some (External ''mock error''))
   \<and> fst (DeleteJSON testLib failingAgent ''test_table'' None world0)
      = (0, Some (External ''mock error''))
   \<and> nothingSent world0 (snd (DeleteJSON testLib failingAgent ''test_table'' None world0))"
proof -
  have signer: "\<And>claims secret.
      snd (generateJWT failingAgent claims secret) = Some (External ''mock error'')"
    by (simp add: failingAgent_def failingSigner_def)
  note T = signing_failure_propagates [OF signer, of "''http://master/test_table''" "''PUT''"
      testLib None world0 "''test_table''" None "''http://slave/test_table''" "Some ''old''"
      "''http://master/test_table''" "''{}''" "''http://master/test_table''"]
  from T show ?thesis
    by (simp add: buildURLStr_test_slave buildURLStr_test_master jsonEncode_test)
qed

text \<open>
  The health check is no read or write operation and treats the same failure in its own
  way: it sends nothing either, and reports the signer's error inside the message that
  names the primary side.
\<close>

lemma Ping_wraps_signing_failure:
  assumes signer: "\<And>claims secret. snd (generateJWT agent claims secret) = Some e"
    and url: "MasterBaseURL (config agent) \<noteq> []"
  shows "fst (Ping l agent w) = Some (Errorf (''master service error: '' @ Error e))
     \<and> nothingSent w (snd (Ping l agent w))"
proof -
  have "fst (probeMaster l agent w) = Inl e \<and> nothingSent w (snd (probeMaster l agent w))"
    unfolding probeMaster_def
    by (rule sendRequest_signer_fails [OF signer url]) simp
  then show ?thesis by (simp add: Ping_eq)
qed

text \<open>
  Claim C10. \<^verbatim>\<open>Delete\<close> and \<^verbatim>\<open>DeleteJSON\<close> take no body from their caller. When the
  URL can be built and is not empty, and the signer and \<^verbatim>\<open>http.NewRequest\<close> accept,
  each of them sends exactly one request: a \<^verbatim>\<open>DELETE\<close> to that URL, with the bearer
  token and a nil body. In every run, whatever they send is a \<^verbatim>\<open>DELETE\<close> with a nil
  body. \<^verbatim>\<open>NewRequest\<close> itself treats \<^verbatim>\<open>DELETE\<close> as a write verb: the request it
  builds for \<^verbatim>\<open>DELETE\<close> carries the body it was given.
\<close>

theorem Delete_issues_bodiless_request:
  "(buildURLStr l (MasterBaseURL (config agent)) table query = Inr urlD
      \<and> accepted l agent ''DELETE'' urlD w \<longrightarrow>
      sentRequests (newEvents w (snd (Delete l agent table query w))) =
        [\<lparr>Method = ''DELETE'', URL = urlD,
          Header = [(''Authorization'', ''Bearer '' @ fst (signerResult l agent ''DELETE'' w))],
          Body = None\<rparr>]
      \<and> sentRequests (newEvents w (snd (DeleteJSON l agent table query w))) =
        [\<lparr>Method = ''DELETE'', URL = urlD,
          Header = [(''Authorization'', ''Bearer '' @ fst (signerResult l agent ''DELETE'' w))],
          Body = None\<rparr>])
   \<and> (\<forall>request \<in> set (sentRequests (newEvents w (snd (Delete l agent table query w)))).
       Method request = ''DELETE'' \<and> Body request = None)
   \<and> (\<forall>request \<in> set (sentRequests (newEvents w (snd (DeleteJSON l agent table query w)))).
       Method request = ''DELETE'' \<and> Body request = None)
   \<and> (fst (NewRequest l agent ''DELETE'' urlStr body w) = Inr request \<longrightarrow>
       Body request = body)
   \<and> (accepted l agent ''DELETE'' urlStr w \<longrightarrow>
       fst (NewRequest l agent ''DELETE'' urlStr body w) =
         Inr \<lparr>Method = ''DELETE'', URL = urlStr,
              Header = [(''Authorization'', ''Bearer '' @ fst (signerResult l agent ''DELETE'' w))],
              Body = body\<rparr>)"
proof -
  have s: "buildURLStr l (MasterBaseURL (config agent)) table query = Inr urlD
      \<and> accepted l agent ''DELETE'' urlD w \<longrightarrow>
      sentRequests (newEvents w (snd (Delete l agent table query w))) =
        [\<lparr>Method = ''DELETE'', URL = urlD,
          Header = [(''Authorization'', ''Bearer '' @ fst (signerResult l agent ''DELETE'' w))],
          Body = None\<rparr>]
      \<and> sentRequests (newEvents w (snd (DeleteJSON l agent table query w))) =
        [\<lparr>Method = ''DELETE'', URL = urlD,
          Header = [(''Authorization'', ''Bearer '' @ fst (signerResult l agent ''DELETE'' w))],
          Body = None\<rparr>]"
    by (simp add: DeleteJSON_world sent_Delete)
  have d: "\<forall>request \<in> set (sentRequests (newEvents w (snd (Delete l agent table query w)))).
       Method request = ''DELETE'' \<and> Body request = None"
  proof (cases "buildURLStr l (MasterBaseURL (config agent)) table query")
    case (Inl err)
    then show ?thesis by (simp add: Delete_world newEvents_same)
  next
    case (Inr urlM)
    from Delete_sentAs [OF Inr, of w] show ?thesis by (simp add: sentAs_def)
  qed
  have n: "fst (NewRequest l agent ''DELETE'' urlStr body w) = Inr request \<longrightarrow>
       Body request = body"
  proof
    assume a: "fst (NewRequest l agent ''DELETE'' urlStr body w) = Inr request"
    then have "NewRequest l agent ''DELETE'' urlStr body w =
        (Inr request, snd (NewRequest l agent ''DELETE'' urlStr body w))"
      by (cases "NewRequest l agent ''DELETE'' urlStr body w") simp
    from NewRequest_Inr [OF this] show "Body request = body" by simp
  qed
  have a: "accepted l agent ''DELETE'' urlStr w \<longrightarrow>
       fst (NewRequest l agent ''DELETE'' urlStr body w) =
         Inr \<lparr>Method = ''DELETE'', URL = urlStr,
              Header = [(''Authorization'', ''Bearer '' @ fst (signerResult l agent ''DELETE'' w))],
              Body = body\<rparr>"
    using NewRequest_accepted [of l agent "''DELETE''" urlStr w body]
    by (simp add: requestFor_def)
  from s d n a show ?thesis by (simp only: DeleteJSON_world)
qed

lemma Delete_example:
  "Delete testLib testAgent ''test_table'' None world0 =
    (Inr (okResponse deleteRequest),
     \<lparr>clockReads = 1,
      trace = [Signed masterClaims ''masterSecret'',
               Sent deleteRequest]\<rparr>)"
  by (simp add: Delete_def buildURLStr_def example_defs testParse_def testString_def
      deleteRequest_def)

lemma NewRequest_DELETE_example:
  "fst (NewRequest testLib testAgent ''DELETE'' ''http://master/test_table'' (Some ''{}'') world0) =
    Inr \<lparr>Method = ''DELETE'', URL = ''http://master/test_table'',
          Header = [(''Authorization'', ''Bearer secret'')], Body = Some ''{}''\<rparr>"
  by (simp add: example_defs testParse_def)

theorem Delete_issues_bodiless_request_witness:
  "sentRequests (newEvents world0 (snd (Delete testLib testAgent ''test_table'' None world0))) =
     [deleteRequest]
   \<and> sentRequests (newEvents world0 (snd (DeleteJSON testLib testAgent ''test_table'' None world0))) =
     [deleteRequest]
   \<and> Method deleteRequest = ''DELETE''
   \<and> Body deleteRequest = None
   \<and> fst (NewRequest testLib testAgent ''DELETE'' ''http://master/test_table'' (Some ''{}'') world0)
       = Inr (deleteRequest\<lparr>Body := Some ''{}''\<rparr>)"
proof -
  note T = Delete_issues_bodiless_request [where l = testLib and agent = testAgent and w = world0
      and table = "''test_table''" and query = None and urlD = "''http://master/test_table''"
      and urlStr = "''http://master/test_table''" and body = "Some ''{}''"
      and request = "deleteRequest\<lparr>Body := Some ''{}''\<rparr>"]
  from T show ?thesis
    by (simp add: buildURLStr_testAgent_master accepted_testAgent signerResult_testAgent
        deleteRequest_def)
qed

end
